theory Spec2Isabelle
  imports Main
begin

section \<open>Python values and the \<open>json\<close> module\<close>

text \<open>
  Both scripts build their messages as Python dictionaries, lists, strings and integers
  and hand them to \<open>json.dumps\<close>; \<open>fake-daemon.py\<close> reads messages back with
  \<open>json.loads\<close>. A Python \<open>dict\<close> keeps its keys in insertion order and
  \<open>json.dumps\<close> writes them in that order, so a dictionary is an association list.
  A Python string is modelled by an Isabelle \<open>string\<close>: each \<open>char\<close> is one code
  point below 256. Floating point numbers are not part of the model.
\<close>

datatype json =
    JNull
  | JBool bool
  | JInt int
  | JStr string
  | JList "json list"
  | JDict "(string \<times> json) list"

datatype error =
    JSONDecodeError
  | KeyError
  | TypeError
  | IndexError
  | FileNotFoundError
  | IsADirectoryError
  | OSError
  | NotModelled

subsection \<open>Characters\<close>

definition LF :: char where "LF = CHR 0x0A"
definition CR :: char where "CR = CHR 0x0D"
definition TAB :: char where "TAB = CHR 0x09"
definition VT :: char where "VT = CHR 0x0B"
definition FF :: char where "FF = CHR 0x0C"
definition BS :: char where "BS = CHR 0x08"
definition DQUOTE :: char where "DQUOTE = CHR 0x22"
definition BACKSLASH :: char where "BACKSLASH = CHR 0x5C"

definition ord :: "char \<Rightarrow> nat" where
  "ord c = of_char c"

definition chr :: "nat \<Rightarrow> char" where
  "chr n = char_of n"

subsection \<open>\<open>str(int)\<close> and hexadecimal digits\<close>

definition digit_char :: "nat \<Rightarrow> char" where
  "digit_char d = chr (48 + d)"

fun str_nat :: "nat \<Rightarrow> string" where
  "str_nat n = (if n < 10 then [digit_char n] else str_nat (n div 10) @ [digit_char (n mod 10)])"

declare str_nat.simps [simp del]

definition str_int :: "int \<Rightarrow> string" where
  "str_int i = (if i < 0 then CHR ''-'' # str_nat (nat (- i)) else str_nat (nat i))"

definition hex_char :: "nat \<Rightarrow> char" where
  \<comment> \<open>one digit of the format \<open>{0:04x}\<close>: lower case\<close>
  "hex_char d = (if d < 10 then chr (48 + d) else chr (87 + d))"

subsection \<open>\<open>json.dumps\<close>\<close>

text \<open>
  \<open>json.dumps(obj)\<close> with its default arguments: \<open>ensure_ascii=True\<close>, item separator
  \<open>", "\<close>, key separator \<open>": "\<close>, no indentation, keys in insertion order.
  \<open>encode_basestring_ascii\<close> replaces \<open>"\<close>, the backslash and every character outside
  the range from space to \<open>~\<close>: the short escapes for backspace, form feed, newline,
  carriage return and tab, and \<open>\uXXXX\<close> with four lower-case hexadecimal digits for the
  others.
\<close>

definition escape_char :: "char \<Rightarrow> string" where
  "escape_char c =
     (if c = DQUOTE then [BACKSLASH, DQUOTE]
      else if c = BACKSLASH then [BACKSLASH, BACKSLASH]
      else if c = BS then [BACKSLASH, CHR ''b'']
      else if c = FF then [BACKSLASH, CHR ''f'']
      else if c = LF then [BACKSLASH, CHR ''n'']
      else if c = CR then [BACKSLASH, CHR ''r'']
      else if c = TAB then [BACKSLASH, CHR ''t'']
      else if ord c < 0x20 \<or> 0x7E < ord c then
        [BACKSLASH, CHR ''u'', CHR ''0'', CHR ''0'', hex_char (ord c div 16), hex_char (ord c mod 16)]
      else [c])"

definition encode_basestring_ascii :: "string \<Rightarrow> string" where
  "encode_basestring_ascii s = DQUOTE # concat (map escape_char s) @ [DQUOTE]"

fun join :: "string \<Rightarrow> string list \<Rightarrow> string" where
  "join sep [] = []"
| "join sep [x] = x"
| "join sep (x # y # ys) = x @ sep @ join sep (y # ys)"

fun dumps :: "json \<Rightarrow> string" where
  "dumps JNull = ''null''"
| "dumps (JBool b) = (if b then ''true'' else ''false'')"
| "dumps (JInt i) = str_int i"
| "dumps (JStr s) = encode_basestring_ascii s"
| "dumps (JList vs) = ''['' @ join '', '' (map dumps vs) @ '']''"
| "dumps (JDict kvs) =
     ''{'' @ join '', '' (map (\<lambda>(k, v). encode_basestring_ascii k @ '': '' @ dumps v) kvs) @ ''}''"

subsection \<open>\<open>json.loads\<close>\<close>

text \<open>
  \<open>json.loads\<close> on the bytes read from the socket: the bytes are decoded to text and
  the text is scanned by \<open>scan_once\<close>, \<open>JSONObject\<close>, \<open>JSONArray\<close> and \<open>scanstring\<close>
  of \<open>json.decoder\<close> and \<open>json.scanner\<close>, which raise \<open>JSONDecodeError\<close> on every
  malformed text. The model follows these functions on ASCII text. It answers
  \<open>NotModelled\<close> where the library leaves the model: a byte outside 1 to 127 (a multi-byte
  character, or a NUL that may switch the detected encoding), a number with a fraction or
  an exponent, \<open>NaN\<close> and \<open>Infinity\<close> (floats), and a \<open>\uXXXX\<close> escape of a code point
  above 255.
\<close>

definition is_ws :: "char \<Rightarrow> bool" where
  \<comment> \<open>\<open>WHITESPACE_STR = ' \t\n\r'\<close>\<close>
  "is_ws c \<longleftrightarrow> c = CHR '' '' \<or> c = TAB \<or> c = LF \<or> c = CR"

definition skip_ws :: "string \<Rightarrow> string" where
  "skip_ws s = dropWhile is_ws s"

definition is_digit :: "char \<Rightarrow> bool" where
  "is_digit c \<longleftrightarrow> 48 \<le> ord c \<and> ord c \<le> 57"

definition digit_val :: "char \<Rightarrow> nat" where
  "digit_val c = ord c - 48"

definition hex_val :: "char \<Rightarrow> nat option" where
  "hex_val c =
     (if 48 \<le> ord c \<and> ord c \<le> 57 then Some (ord c - 48)
      else if 97 \<le> ord c \<and> ord c \<le> 102 then Some (ord c - 87)
      else if 65 \<le> ord c \<and> ord c \<le> 70 then Some (ord c - 55)
      else None)"

definition decode_uXXXX :: "char \<Rightarrow> char \<Rightarrow> char \<Rightarrow> char \<Rightarrow> nat option" where
  "decode_uXXXX a b c d =
     (case (hex_val a, hex_val b, hex_val c, hex_val d) of
        (Some h3, Some h2, Some h1, Some h0) \<Rightarrow> Some (((h3 * 16 + h2) * 16 + h1) * 16 + h0)
      | _ \<Rightarrow> None)"

definition unescape :: "char \<Rightarrow> char option" where
  \<comment> \<open>the table \<open>BACKSLASH\<close> of \<open>json.decoder\<close>\<close>
  "unescape esc =
     (if esc = DQUOTE then Some DQUOTE
      else if esc = BACKSLASH then Some BACKSLASH
      else if esc = CHR ''/'' then Some CHR ''/''
      else if esc = CHR ''b'' then Some BS
      else if esc = CHR ''f'' then Some FF
      else if esc = CHR ''n'' then Some LF
      else if esc = CHR ''r'' then Some CR
      else if esc = CHR ''t'' then Some TAB
      else None)"

definition prepend :: "char \<Rightarrow> error + (string \<times> string) \<Rightarrow> error + (string \<times> string)" where
  "prepend c r = (case r of Inl e \<Rightarrow> Inl e | Inr (s, rest) \<Rightarrow> Inr (c # s, rest))"

text \<open>
  \<open>scanstring\<close> starts behind the opening quote and returns the decoded string and the
  text behind the closing quote. An unescaped control character is an error
  (\<open>strict=True\<close>).
\<close>

fun scanstring :: "string \<Rightarrow> error + (string \<times> string)" where
  "scanstring [] = Inl JSONDecodeError"
| "scanstring (c # cs) =
     (if c = DQUOTE then Inr ([], cs)
      else if c = BACKSLASH then
        (case cs of
           [] \<Rightarrow> Inl JSONDecodeError
         | esc # cs' \<Rightarrow>
             if esc = CHR ''u'' then
               (case cs' of
                  h3 # h2 # h1 # h0 # rest \<Rightarrow>
                    (case decode_uXXXX h3 h2 h1 h0 of
                       None \<Rightarrow> Inl JSONDecodeError
                     | Some n \<Rightarrow> if n < 256 then prepend (chr n) (scanstring rest)
                                else Inl NotModelled)
                | _ \<Rightarrow> Inl JSONDecodeError)
             else
               (case unescape esc of
                  None \<Rightarrow> Inl JSONDecodeError
                | Some ch \<Rightarrow> prepend ch (scanstring cs')))
      else if ord c < 0x20 then Inl JSONDecodeError
      else prepend c (scanstring cs))"

text \<open>
  \<open>NUMBER_RE\<close> is \<open>(-?(?:0|[1-9]\d*))(\.\d+)?([eE][-+]?\d+)?\<close>. \<open>match_number\<close> gives the
  sign, the digits of the integer part and the text behind them; \<open>has_frac\<close> and
  \<open>has_exp\<close> tell whether the second or third group would match there, which makes the
  number a float.
\<close>

definition match_number :: "string \<Rightarrow> (bool \<times> string \<times> string) option" where
  "match_number s =
     (let neg = (case s of [] \<Rightarrow> False | c # _ \<Rightarrow> c = CHR ''-'');
          s1 = (if neg then tl s else s)
      in case s1 of
           [] \<Rightarrow> None
         | c # cs \<Rightarrow>
             if c = CHR ''0'' then Some (neg, [c], cs)
             else if is_digit c then Some (neg, takeWhile is_digit s1, dropWhile is_digit s1)
             else None)"

definition has_frac :: "string \<Rightarrow> bool" where
  "has_frac s = (case s of c # d # _ \<Rightarrow> c = CHR ''.'' \<and> is_digit d | _ \<Rightarrow> False)"

definition has_exp :: "string \<Rightarrow> bool" where
  "has_exp s =
     (case s of
        e # d # r \<Rightarrow>
          (e = CHR ''e'' \<or> e = CHR ''E'') \<and>
          (is_digit d \<or>
           ((d = CHR ''+'' \<or> d = CHR ''-'') \<and> (case r of d' # _ \<Rightarrow> is_digit d' | [] \<Rightarrow> False)))
      | _ \<Rightarrow> False)"

definition int_of_digits :: "bool \<Rightarrow> string \<Rightarrow> int" where
  "int_of_digits neg ds =
     (let n = int (foldl (\<lambda>a c. 10 * a + digit_val c) 0 ds) in if neg then - n else n)"

text \<open>
  \<open>dict(pairs)\<close>: a repeated key keeps its first position and takes the last value.
\<close>

fun setitem :: "(string \<times> json) list \<Rightarrow> string \<Rightarrow> json \<Rightarrow> (string \<times> json) list" where
  "setitem [] k v = [(k, v)]"
| "setitem ((k', v') # kvs) k v =
     (if k' = k then (k', v) # kvs else (k', v') # setitem kvs k v)"

definition dict :: "(string \<times> json) list \<Rightarrow> (string \<times> json) list" where
  "dict pairs = foldl (\<lambda>d (k, v). setitem d k v) [] pairs"

text \<open>
  The scanner is recursive on the text behind what it has read. The model counts the
  calls down from a bound \<open>n\<close>; \<open>loads\<close> starts it above the length of the text, and
  every call reads at least one character first. \<open>JSONObject\<close> and \<open>JSONArray\<close> are the
  bodies of the library's \<open>while\<close> loops: \<open>JSONObject\<close> starts behind the opening quote of
  a key with the pairs read so far, \<open>JSONArray\<close> at the first character of an item.
\<close>

fun scan_once :: "nat \<Rightarrow> string \<Rightarrow> error + (json \<times> string)"
  and JSONObject :: "nat \<Rightarrow> (string \<times> json) list \<Rightarrow> string \<Rightarrow> error + (json \<times> string)"
  and JSONArray :: "nat \<Rightarrow> json list \<Rightarrow> string \<Rightarrow> error + (json \<times> string)"
where
  "scan_once 0 s = Inl NotModelled"
| "scan_once (Suc n) s =
     (case s of
        [] \<Rightarrow> Inl JSONDecodeError
      | c # cs \<Rightarrow>
          if c = DQUOTE then
            (case scanstring cs of Inl e \<Rightarrow> Inl e | Inr (str, rest) \<Rightarrow> Inr (JStr str, rest))
          else if c = CHR ''{'' then
            (case skip_ws cs of
               [] \<Rightarrow> Inl JSONDecodeError
             | c1 # r1 \<Rightarrow>
                 if c1 = DQUOTE then JSONObject n [] r1
                 else if c1 = CHR ''}'' then Inr (JDict [], r1)
                 else Inl JSONDecodeError)
          else if c = CHR ''['' then
            (case skip_ws cs of
               [] \<Rightarrow> Inl JSONDecodeError
             | c1 # r1 \<Rightarrow>
                 if c1 = CHR '']'' then Inr (JList [], r1)
                 else JSONArray n [] (c1 # r1))
          else if take 4 s = ''null'' then Inr (JNull, drop 4 s)
          else if take 4 s = ''true'' then Inr (JBool True, drop 4 s)
          else if take 5 s = ''false'' then Inr (JBool False, drop 5 s)
          else
            (case match_number s of
               Some (neg, ds, rest) \<Rightarrow>
                 if has_frac rest \<or> has_exp rest then Inl NotModelled
                 else Inr (JInt (int_of_digits neg ds), rest)
             | None \<Rightarrow>
                 if take 3 s = ''NaN'' \<or> take 8 s = ''Infinity'' \<or> take 9 s = ''-Infinity''
                 then Inl NotModelled
                 else Inl JSONDecodeError))"
| "JSONObject 0 pairs s = Inl NotModelled"
| "JSONObject (Suc n) pairs s =
     (case scanstring s of
        Inl e \<Rightarrow> Inl e
      | Inr (key, s1) \<Rightarrow>
          (case skip_ws s1 of
             [] \<Rightarrow> Inl JSONDecodeError
           | c # s2 \<Rightarrow>
               if c \<noteq> CHR '':'' then Inl JSONDecodeError
               else
                 (case scan_once n (skip_ws s2) of
                    Inl e \<Rightarrow> Inl e
                  | Inr (v, s3) \<Rightarrow>
                      (case skip_ws s3 of
                         [] \<Rightarrow> Inl JSONDecodeError
                       | c' # s4 \<Rightarrow>
                           if c' = CHR ''}'' then Inr (JDict (dict (pairs @ [(key, v)])), s4)
                           else if c' \<noteq> CHR '','' then Inl JSONDecodeError
                           else
                             (case skip_ws s4 of
                                [] \<Rightarrow> Inl JSONDecodeError
                              | c'' # s5 \<Rightarrow>
                                  if c'' \<noteq> DQUOTE then Inl JSONDecodeError
                                  else JSONObject n (pairs @ [(key, v)]) s5)))))"
| "JSONArray 0 vs s = Inl NotModelled"
| "JSONArray (Suc n) vs s =
     (case scan_once n s of
        Inl e \<Rightarrow> Inl e
      | Inr (v, s1) \<Rightarrow>
          (case skip_ws s1 of
             [] \<Rightarrow> Inl JSONDecodeError
           | c # s2 \<Rightarrow>
               if c = CHR '']'' then Inr (JList (vs @ [v]), s2)
               else if c \<noteq> CHR '','' then Inl JSONDecodeError
               else JSONArray n (vs @ [v]) (skip_ws s2)))"

definition loads :: "string \<Rightarrow> error + json" where
  "loads b =
     (if \<not> list_all (\<lambda>c. 0 < ord c \<and> ord c < 128) b then Inl NotModelled
      else
        (case scan_once (Suc (length b)) (skip_ws b) of
           Inl e \<Rightarrow> Inl e
         | Inr (obj, rest) \<Rightarrow> if skip_ws rest = [] then Inr obj else Inl JSONDecodeError))"

subsection \<open>Subscripting\<close>

text \<open>
  \<open>obj[key]\<close> with a string key: a dictionary returns the value or raises \<open>KeyError\<close>;
  every other JSON value raises \<open>TypeError\<close> (a list or string wants an integer index,
  the other values are not subscriptable).
\<close>

fun getitem :: "json \<Rightarrow> string \<Rightarrow> error + json" where
  "getitem (JDict kvs) k = (case map_of kvs k of None \<Rightarrow> Inl KeyError | Some v \<Rightarrow> Inr v)"
| "getitem _ k = Inl TypeError"

section \<open>\<open>dummy-jsonrpc.py\<close>\<close>

text \<open>
  The script takes \<open>--message-type\<close> (\<open>argparse\<close> admits only \<open>open\<close> and \<open>edit\<close>,
  default \<open>open\<close>) and a file name, builds both messages and prints the chosen one
  behind a \<open>Content-Length\<close> header. \<open>Path(args.file).resolve()\<close> depends on the
  working directory and on the file system, so it is a parameter \<open>resolve\<close> of the model.
\<close>

datatype message_type = Open | Edit

definition uri :: "(string \<Rightarrow> string) \<Rightarrow> string \<Rightarrow> string" where
  "uri resolve file = ''file://'' @ resolve file"

definition position :: "int \<Rightarrow> int \<Rightarrow> json" where
  "position l c = JDict [(''line'', JInt l), (''character'', JInt c)]"

definition messages :: "string \<Rightarrow> message_type \<Rightarrow> json" where
  "messages u t =
     (case t of
        Open \<Rightarrow>
          JDict [(''jsonrpc'', JStr ''2.0''),
                 (''id'', JInt 1),
                 (''method'', JStr ''open''),
                 (''params'', JDict [(''uri'', JStr u)])]
      | Edit \<Rightarrow>
          JDict [(''jsonrpc'', JStr ''2.0''),
                 (''method'', JStr ''edit''),
                 (''id'', JInt 2),
                 (''params'',
                    JDict [(''uri'', JStr u),
                           (''revision'', JInt 0),
                           (''delta'',
                              JList [JDict [(''range'',
                                               JDict [(''start'', position 0 0),
                                                      (''end'', position 0 0)]),
                                            (''replacement'', JStr ''hello, world'')]])])])"

definition message_json :: "(string \<Rightarrow> string) \<Rightarrow> message_type \<Rightarrow> string \<Rightarrow> string" where
  "message_json resolve t file = dumps (messages (uri resolve file) t)"

definition dummy_jsonrpc :: "(string \<Rightarrow> string) \<Rightarrow> message_type \<Rightarrow> string \<Rightarrow> string" where
  \<comment> \<open>what \<open>print\<close> writes to standard output; \<open>print\<close> ends the line itself\<close>
  "dummy_jsonrpc resolve t file =
     (let m = message_json resolve t file
      in ''Content-Length: '' @ str_nat (length m) @ [CR, LF, CR, LF] @ m @ [LF])"

section \<open>\<open>fake-daemon.py\<close>\<close>

subsection \<open>The connection\<close>

text \<open>
  A connection is what the script sees of one peer. \<open>incoming\<close> lists the peer's bytes
  in the pieces in which they become available to successive \<open>recv\<close> calls,
  \<open>peer_closed\<close> tells whether the peer closes the stream behind them (otherwise it
  stays silent), and \<open>sent\<close> records the argument of every \<open>conn.send\<close> call, in order.
  \<open>conn.send\<close> is taken to transmit its whole argument to a peer that still reads; the
  \<open>print\<close> calls of the script write to standard output, not to the connection, and are
  left out.
\<close>

record conn =
  incoming :: "string list"
  peer_closed :: bool
  sent :: "string list"

text \<open>
  A piece of code either returns a value, raises, or blocks for ever in a system call;
  each outcome carries the state it leaves behind.
\<close>

datatype ('a, 's) result = Return 'a 's | Raise error 's | Block 's

text \<open>
  \<open>conn.recv(bufsize)\<close> waits until bytes are available and returns at most
  \<open>bufsize\<close> of them; what does not fit stays for the next call. On a stream that the
  peer has closed it returns \<open>b''\<close>; on a silent peer it never returns (\<open>None\<close>).
\<close>

fun recv_chunks :: "nat \<Rightarrow> string list \<Rightarrow> (string \<times> string list) option" where
  "recv_chunks bufsize [] = None"
| "recv_chunks bufsize (c # cs) =
     (if c = [] then recv_chunks bufsize cs
      else Some (take bufsize c, if drop bufsize c = [] then cs else drop bufsize c # cs))"

definition recv :: "conn \<Rightarrow> nat \<Rightarrow> (string \<times> conn) option" where
  "recv c bufsize =
     (case recv_chunks bufsize (incoming c) of
        Some (bytes, rest) \<Rightarrow> Some (bytes, c\<lparr>incoming := rest\<rparr>)
      | None \<Rightarrow> if peer_closed c then Some ([], c\<lparr>incoming := []\<rparr>) else None)"

subsection \<open>\<open>bytes.strip\<close> and \<open>bytes.split\<close>\<close>

definition is_space :: "char \<Rightarrow> bool" where
  \<comment> \<open>the ASCII whitespace that \<open>bytes.strip()\<close> removes\<close>
  "is_space c \<longleftrightarrow> c = CHR '' '' \<or> c = TAB \<or> c = LF \<or> c = CR \<or> c = VT \<or> c = FF"

definition strip :: "string \<Rightarrow> string" where
  "strip s = rev (dropWhile is_space (rev (dropWhile is_space s)))"

fun split_lf :: "string \<Rightarrow> string list" where
  \<comment> \<open>\<open>bytes.split(b"\n")\<close>\<close>
  "split_lf [] = [[]]"
| "split_lf (c # cs) =
     (if c = LF then [] # split_lf cs
      else (case split_lf cs of [] \<Rightarrow> [[c]] | l # ls \<Rightarrow> (c # l) # ls))"

subsection \<open>\<open>read_line\<close> and \<open>send\<close>\<close>

definition socket_path :: string where
  "socket_path = ''/tmp/teamtype-test/.teamtype/socket''"

definition read_line :: "conn \<Rightarrow> (json, conn) result" where
  "read_line c =
     (case recv c 1024 of
        None \<Rightarrow> Block c
      | Some (bytes, c') \<Rightarrow>
          (case split_lf (strip bytes) of
             [] \<Rightarrow> Raise IndexError c'
           | line0 # _ \<Rightarrow>
               (case loads line0 of
                  Inl e \<Rightarrow> Raise e c'
                | Inr result \<Rightarrow> Return result c')))"

definition send :: "conn \<Rightarrow> json \<Rightarrow> conn" where
  \<comment> \<open>two \<open>conn.send\<close> calls: the JSON text, then the newline\<close>
  "send c obj = c\<lparr>sent := sent c @ [dumps obj, [LF]]\<rparr>"

subsection \<open>The server\<close>

definition response :: "json \<Rightarrow> json" where
  "response ident = JDict [(''jsonrpc'', JStr ''2.0''), (''id'', ident), (''result'', JStr ''success'')]"

definition the_beautiful_edit :: "json \<Rightarrow> json" where
  "the_beautiful_edit u =
     JDict [(''jsonrpc'', JStr ''2.0''),
            (''method'', JStr ''edit''),
            (''params'',
               JDict [(''uri'', u),
                      (''revision'', JInt 0),
                      (''delta'',
                         JList [JDict [(''range'',
                                          JDict [(''start'', position 0 0),
                                                 (''end'', position 0 1)]),
                                       (''replacement'', JStr ''AaA'')]])])]"

text \<open>
  The inner loop \<open>while True: read_line(conn)\<close> has no exit of its own: it ends when
  \<open>read_line\<close> raises or blocks. Every \<open>read_line\<close> that returns has taken bytes from
  the connection, so the loop is a terminating recursion on what is still to arrive.
\<close>

definition backlog :: "conn \<Rightarrow> nat" where
  "backlog c = sum_list (map (\<lambda>x. Suc (length x)) (incoming c))"

function drain :: "conn \<Rightarrow> (unit, conn) result" where
  "drain c =
     (case read_line c of
        Return _ c' \<Rightarrow> drain c'
      | Raise e c' \<Rightarrow> Raise e c'
      | Block c' \<Rightarrow> Block c')"
  by pat_completeness auto
termination
proof (relation "measure backlog")
  show "wf (measure backlog)" by simp
next
  fix c :: conn and r c'
  assume ret: "read_line c = Return r c'"
  have less: "sum_list (map (\<lambda>x. Suc (length x)) rest) < sum_list (map (\<lambda>x. Suc (length x)) cs)"
    if "recv_chunks 1024 cs = Some (bytes, rest)" for cs bytes rest
    using that by (induction cs) (auto split: if_splits)
  have empty: "loads [] = Inl JSONDecodeError"
    by (simp add: loads_def skip_ws_def)
  have "backlog c' < backlog c"
  proof (cases "recv_chunks 1024 (incoming c)")
    case None
    with ret empty show ?thesis
      by (auto simp: read_line_def recv_def strip_def split: if_splits)
  next
    case (Some p)
    obtain bytes rest where p: "p = (bytes, rest)" by (cases p)
    from Some p have "sum_list (map (\<lambda>x. Suc (length x)) rest) < backlog c"
      unfolding backlog_def by (intro less) auto
    moreover from ret Some p have "incoming c' = rest"
      by (auto simp: read_line_def recv_def split: list.splits sum.splits)
    ultimately show ?thesis by (simp add: backlog_def)
  qed
  then show "(c', c) \<in> measure backlog" by simp
qed

declare drain.simps [simp del]

text \<open>
  One pass of the outer loop behind \<open>server.accept()\<close>. The response is sent before
  \<open>open["params"]["uri"]\<close> is read for the edit.
\<close>

definition session :: "conn \<Rightarrow> (unit, conn) result" where
  "session c =
     (case read_line c of
        Block c1 \<Rightarrow> Block c1
      | Raise e c1 \<Rightarrow> Raise e c1
      | Return openmsg c1 \<Rightarrow>
          (case getitem openmsg ''id'' of
             Inl e \<Rightarrow> Raise e c1
           | Inr ident \<Rightarrow>
               (let c2 = send c1 (response ident) in
                case getitem openmsg ''params'' of
                  Inl e \<Rightarrow> Raise e c2
                | Inr params \<Rightarrow>
                    (case getitem params ''uri'' of
                       Inl e \<Rightarrow> Raise e c2
                     | Inr u \<Rightarrow> drain (send c2 (the_beautiful_edit u))))))"

text \<open>
  The outer loop accepts the peers in the order in which they connect; with no peer left
  \<open>server.accept()\<close> blocks. The state is the list of connections served so far, as
  they were left, and the list of peers not yet accepted.
\<close>

fun serve :: "conn list \<Rightarrow> conn list \<Rightarrow> (unit, conn list \<times> conn list) result" where
  "serve served [] = Block (served, [])"
| "serve served (c # waiting) =
     (case session c of
        Return _ c' \<Rightarrow> serve (served @ [c']) waiting
      | Raise e c' \<Rightarrow> Raise e (served @ [c'], waiting)
      | Block c' \<Rightarrow> Block (served @ [c'], waiting))"

subsection \<open>The socket file\<close>

text \<open>
  The file system is a map from absolute paths to what is there. \<open>os.path.exists\<close>
  follows symbolic links (at most 40, as Linux does) and is false for a link whose target
  is missing. \<open>os.remove\<close> unlinks the entry itself, also a symbolic link, and refuses a
  directory. \<open>server.bind\<close> creates the socket file and fails when the path is taken.
  Permissions and the directories on the way to the path are not modelled.
\<close>

datatype entry = File | Dir | Socket | Symlink string

type_synonym fs = "string \<rightharpoonup> entry"

fun stat :: "nat \<Rightarrow> fs \<Rightarrow> string \<Rightarrow> entry option" where
  "stat 0 fs p = None"
| "stat (Suc n) fs p =
     (case fs p of
        None \<Rightarrow> None
      | Some (Symlink target) \<Rightarrow> stat n fs target
      | Some e \<Rightarrow> Some e)"

definition os_path_exists :: "fs \<Rightarrow> string \<Rightarrow> bool" where
  "os_path_exists fs p \<longleftrightarrow> stat (Suc 40) fs p \<noteq> None"

definition os_remove :: "fs \<Rightarrow> string \<Rightarrow> error + fs" where
  "os_remove fs p =
     (case fs p of
        None \<Rightarrow> Inl FileNotFoundError
      | Some Dir \<Rightarrow> Inl IsADirectoryError
      | Some _ \<Rightarrow> Inr (fs(p := None)))"

definition remove_stale_socket :: "fs \<Rightarrow> error + fs" where
  \<comment> \<open>\<open>if os.path.exists(socket_path): os.remove(socket_path)\<close>\<close>
  "remove_stale_socket fs =
     (if os_path_exists fs socket_path then os_remove fs socket_path else Inr fs)"

definition bind :: "fs \<Rightarrow> string \<Rightarrow> error + fs" where
  "bind fs p = (case fs p of Some _ \<Rightarrow> Inl OSError | None \<Rightarrow> Inr (fs(p \<mapsto> Socket)))"

text \<open>The whole script: the file system and the peers go in, the final state comes out.\<close>

definition fake_daemon :: "fs \<Rightarrow> conn list \<Rightarrow> (unit, fs \<times> conn list \<times> conn list) result" where
  "fake_daemon fs peers =
     (case remove_stale_socket fs of
        Inl e \<Rightarrow> Raise e (fs, [], peers)
      | Inr fs1 \<Rightarrow>
          (case bind fs1 socket_path of
             Inl e \<Rightarrow> Raise e (fs1, [], peers)
           | Inr fs2 \<Rightarrow>
               (case serve [] peers of
                  Return u st \<Rightarrow> Return u (fs2, st)
                | Raise e st \<Rightarrow> Raise e (fs2, st)
                | Block st \<Rightarrow> Block (fs2, st))))"

section \<open>Notions used by the properties\<close>

text \<open>The state in which a run ends, whatever the outcome.\<close>

fun final :: "('a, 's) result \<Rightarrow> 's" where
  "final (Return _ s) = s"
| "final (Raise _ s) = s"
| "final (Block s) = s"

text \<open>\<open>msg["params"][k]\<close>.\<close>

definition param :: "json \<Rightarrow> string \<Rightarrow> error + json" where
  "param msg k = (case getitem msg ''params'' of Inl e \<Rightarrow> Inl e | Inr params \<Rightarrow> getitem params k)"

text \<open>
  \<open>print\<close> encodes the text for standard output; with UTF-8 a code point below 128 is
  one byte and a code point from 128 to 255 is two.
\<close>

definition utf8 :: "string \<Rightarrow> string" where
  "utf8 s =
     concat (map (\<lambda>c. if ord c < 128 then [c]
                       else [chr (192 + ord c div 64), chr (128 + ord c mod 64)]) s)"

text \<open>The number that a string of decimal digits denotes.\<close>

definition decimal_value :: "string \<Rightarrow> nat" where
  "decimal_value ds = foldl (\<lambda>a c. 10 * a + digit_val c) 0 ds"

text \<open>A peer that has sent nothing yet received: its pieces, and whether it closes behind them.\<close>

definition peer :: "string list \<Rightarrow> bool \<Rightarrow> conn" where
  "peer pieces closes = \<lparr>incoming = pieces, peer_closed = closes, sent = []\<rparr>"

text \<open>Text in which every character is ASCII, so that it has as many bytes as characters.\<close>

definition ascii :: "string \<Rightarrow> bool" where
  "ascii s = list_all (\<lambda>c. ord c < 128) s"

section \<open>Characters, digits and ASCII text\<close>

lemma ord_chr: "n < 256 \<Longrightarrow> ord (chr n) = n"
  by (simp add: ord_def chr_def)

lemma chr_ord: "chr (ord c) = c"
  by (simp add: ord_def chr_def)

lemma ord_less_256: "ord c < 256"
  by (simp add: ord_def)

lemma ord_inject: "ord c = ord d \<longleftrightarrow> c = d"
  by (metis chr_ord)

lemma ord_special:
  "ord LF = 10" "ord CR = 13" "ord TAB = 9" "ord VT = 11" "ord FF = 12" "ord BS = 8"
  "ord DQUOTE = 34" "ord BACKSLASH = 92"
  by (simp_all add: ord_def LF_def CR_def TAB_def VT_def FF_def BS_def DQUOTE_def BACKSLASH_def)

lemma ord_digit_char: "d < 10 \<Longrightarrow> ord (digit_char d) = 48 + d"
  by (simp add: digit_char_def ord_chr)

lemma ord_hex_char: "d < 16 \<Longrightarrow> ord (hex_char d) = (if d < 10 then 48 + d else 87 + d)"
  by (simp add: hex_char_def ord_chr)

lemma ascii_simps: "ascii []" "ascii (c # s) \<longleftrightarrow> ord c < 128 \<and> ascii s" "ascii (s @ t) \<longleftrightarrow> ascii s \<and> ascii t"
  by (simp_all add: ascii_def)

lemma ascii_str_nat: "ascii (str_nat n)"
proof (induction n rule: str_nat.induct)
  case (1 n)
  then show ?case
    by (subst str_nat.simps) (auto simp: ascii_simps ord_digit_char)
qed

lemma ascii_str_int: "ascii (str_int i)"
  by (simp add: str_int_def ascii_simps ascii_str_nat ord_def)

lemma ascii_hex_char: "d < 16 \<Longrightarrow> ord (hex_char d) < 128"
  by (simp add: ord_hex_char)

lemma ascii_escape_char: "ascii (escape_char c)"
proof -
  have "ord c div 16 < 16" "ord c mod 16 < 16"
    using ord_less_256 [of c] by simp_all
  then show ?thesis
    by (auto simp: escape_char_def ascii_simps ord_special ascii_hex_char ord_def[of "CHR ''b''"] ord_def[of "CHR ''f''"] ord_def[of "CHR ''n''"] ord_def[of "CHR ''r''"] ord_def[of "CHR ''t''"] ord_def[of "CHR ''u''"] ord_def[of "CHR ''0''"])
qed

lemma ascii_concat: "(\<And>x. x \<in> set xs \<Longrightarrow> ascii x) \<Longrightarrow> ascii (concat xs)"
  by (induction xs) (auto simp: ascii_simps)

lemma ascii_encode: "ascii (encode_basestring_ascii s)"
  by (auto simp: encode_basestring_ascii_def ascii_simps ord_special intro!: ascii_concat ascii_escape_char)

lemma ascii_join: "ascii sep \<Longrightarrow> (\<And>x. x \<in> set xs \<Longrightarrow> ascii x) \<Longrightarrow> ascii (join sep xs)"
  by (induction sep xs rule: join.induct) (auto simp: ascii_simps)

lemma ascii_dumps: "ascii (dumps v)"
proof (induction v)
  case (JList vs)
  then show ?case by (auto simp: ascii_simps ord_def intro!: ascii_join)
next
  case (JDict kvs)
  then show ?case by (auto simp: ascii_simps ord_def ascii_encode intro!: ascii_join)
qed (auto simp: ascii_simps ord_def ascii_str_int ascii_encode)

lemma utf8_ascii: "ascii s \<Longrightarrow> utf8 s = s"
  by (induction s) (auto simp: utf8_def ascii_simps)

lemma utf8_append: "utf8 (s @ t) = utf8 s @ utf8 t"
  by (simp add: utf8_def)

lemma decimal_value_snoc: "decimal_value (ds @ [c]) = 10 * decimal_value ds + digit_val c"
  by (simp add: decimal_value_def)

lemma digit_val_digit_char: "d < 10 \<Longrightarrow> digit_val (digit_char d) = d"
  by (simp add: digit_val_def ord_digit_char)

lemma decimal_value_str_nat: "decimal_value (str_nat n) = n"
proof (induction n rule: str_nat.induct)
  case (1 n)
  show ?case
  proof (cases "n < 10")
    case True
    then show ?thesis by (subst str_nat.simps) (simp add: decimal_value_def digit_val_digit_char)
  next
    case False
    with 1 show ?thesis
      by (subst str_nat.simps) (simp add: decimal_value_snoc digit_val_digit_char)
  qed
qed

lemma is_digit_digit_char: "d < 10 \<Longrightarrow> is_digit (digit_char d)"
  by (simp add: is_digit_def ord_digit_char)

lemma digits_str_nat: "list_all is_digit (str_nat n)"
proof (induction n rule: str_nat.induct)
  case (1 n)
  then show ?case
    by (subst str_nat.simps) (auto simp: is_digit_digit_char)
qed

section \<open>Properties of \<open>dummy-jsonrpc.py\<close>\<close>

text \<open>
  C1. For every file and both message types, the bytes that the script prints are the
  header \<open>Content-Length: N\<close>, a blank line, the JSON text of the message and the
  newline with which \<open>print\<close> ends its output, where the decimal number \<open>N\<close> is the
  number of bytes of that JSON text. \<open>len(message_json)\<close> counts characters; they are
  as many as the bytes because \<open>json.dumps\<close> leaves only ASCII characters.
\<close>

theorem content_length_is_body_bytes:
  "\<exists>digits.
     utf8 (dummy_jsonrpc resolve t file) =
       ''Content-Length: '' @ digits @ [CR, LF, CR, LF] @ utf8 (message_json resolve t file) @ [LF]
     \<and> list_all is_digit digits
     \<and> decimal_value digits = length (utf8 (message_json resolve t file))"
proof -
  let ?m = "message_json resolve t file"
  have m: "ascii ?m" by (simp add: message_json_def ascii_dumps)
  have d: "ascii (str_nat (length ?m))" by (rule ascii_str_nat)
  have "ascii (dummy_jsonrpc resolve t file)"
    using m d by (simp add: dummy_jsonrpc_def Let_def ascii_simps ord_special) (simp add: ord_def)
  then have "utf8 (dummy_jsonrpc resolve t file) =
      ''Content-Length: '' @ str_nat (length ?m) @ [CR, LF, CR, LF] @ ?m @ [LF]"
    by (simp add: utf8_ascii) (simp add: dummy_jsonrpc_def Let_def)
  moreover have "utf8 ?m = ?m" using m by (rule utf8_ascii)
  ultimately show ?thesis
    using digits_str_nat [of "length ?m"] decimal_value_str_nat [of "length ?m"] by auto
qed

text \<open>
  C8. For every file and both message types, \<open>params.uri\<close> of the generated message is
  \<open>file://\<close> followed by the resolved path of the file.
\<close>

theorem uri_is_file_scheme_and_resolved_path:
  "param (messages (uri resolve file) t) ''uri'' = Inr (JStr (''file://'' @ resolve file))"
  by (cases t) (simp_all add: param_def messages_def uri_def)

section \<open>Properties of \<open>fake-daemon.py\<close>\<close>

subsection \<open>What a session writes, and that it never returns\<close>

lemma read_line_sent: "sent (final (read_line c)) = sent c"
  by (auto simp: read_line_def recv_def split: option.splits list.splits sum.splits prod.splits)

lemma drain_cases:
  "drain c = (case read_line c of Return r c' \<Rightarrow> drain c' | Raise e c' \<Rightarrow> Raise e c' | Block c' \<Rightarrow> Block c')"
  by (subst drain.simps) (rule refl)

lemma drain_sent: "sent (final (drain c)) = sent c"
proof (induction c rule: drain.induct)
  case (1 c)
  show ?case
  proof (cases "read_line c")
    case (Return r c')
    with 1 [OF Return] read_line_sent [of c] show ?thesis
      by (subst drain_cases) simp
  next
    case (Raise e c')
    with read_line_sent [of c] show ?thesis by (subst drain_cases) simp
  next
    case (Block c')
    with read_line_sent [of c] show ?thesis by (subst drain_cases) simp
  qed
qed

lemma drain_never_returns: "drain c \<noteq> Return u c'"
proof (induction c rule: drain.induct)
  case (1 c)
  show ?case
  proof (cases "read_line c")
    case (Return r c1)
    with 1 [OF Return] show ?thesis by (subst drain_cases) simp
  next
    case (Raise e c1)
    then show ?thesis by (subst drain_cases) simp
  next
    case (Block c1)
    then show ?thesis by (subst drain_cases) simp
  qed
qed

lemma session_never_returns: "session c \<noteq> Return u c'"
  by (auto simp: session_def Let_def drain_never_returns split: result.splits sum.splits)

lemma sent_send: "sent (send c obj) = sent c @ [dumps obj, [LF]]"
  by (simp add: send_def)

lemma session_sent:
  "sent (final (session c)) =
     (case read_line c of
        Return req c1 \<Rightarrow>
          (case getitem req ''id'' of
             Inl e \<Rightarrow> sent c
           | Inr i \<Rightarrow>
               (case param req ''uri'' of
                  Inl e \<Rightarrow> sent c @ [dumps (response i), [LF]]
                | Inr u \<Rightarrow> sent c @ [dumps (response i), [LF], dumps (the_beautiful_edit u), [LF]]))
      | _ \<Rightarrow> sent c)"
  using read_line_sent [of c]
  by (auto simp: session_def Let_def param_def drain_sent sent_send split: result.splits sum.splits)

lemma serve_first_only:
  "serve served (c # waiting) \<noteq> Return u st \<and> snd (final (serve served (c # waiting))) = waiting"
  using session_never_returns [of c] by (cases "session c") auto

lemma stat_missing: "fs p = None \<Longrightarrow> stat n fs p = None"
  by (cases n) simp_all

lemma os_path_exists_unfold:
  "os_path_exists fs p \<longleftrightarrow>
     (case fs p of None \<Rightarrow> False | Some (Symlink target) \<Rightarrow> stat 40 fs target \<noteq> None | Some _ \<Rightarrow> True)"
  unfolding os_path_exists_def stat.simps(2)
  by (simp split: option.splits entry.splits)

subsection \<open>Reading\<close>

text \<open>
  C3. The claim is that \<open>read_line\<close> returns one complete JSON-RPC object per call however
  the peer's bytes are cut into pieces, and discards no bytes of later frames. The code
  does one \<open>recv\<close> and decodes the first line of what it got. When two frames arrive
  together, the first call returns the first object and the second frame is gone: the
  connection is empty afterwards and the next call blocks. When a frame arrives in two
  pieces, the call raises on the first piece.
\<close>

theorem read_line_loses_frames:
  "read_line (peer [''{\"id\": 1}'' @ [LF] @ ''{\"id\": 2}'' @ [LF]] False) =
     Return (JDict [(''id'', JInt 1)]) (peer [] False) \<and>
   read_line (peer [] False) = Block (peer [] False) \<and>
   read_line (peer [''{\"id\":'', '' 1}'' @ [LF]] False) =
     Raise JSONDecodeError (peer ['' 1}'' @ [LF]] False)"
  by code_simp

subsection \<open>The reply to \<open>open\<close>\<close>

text \<open>
  C4, as stated, fails: nothing validates \<open>params.uri\<close>. A request whose uri is the
  empty string gets the success response (and the edit, with the empty uri); a request
  without \<open>params\<close> gets the success response too, and only then the script raises
  \<open>KeyError\<close>. The response also carries the member \<open>jsonrpc\<close>.
\<close>

theorem open_without_uri_counterexample:
  "session (peer [''{\"jsonrpc\": \"2.0\", \"id\": 1, \"method\": \"open\", \"params\": {\"uri\": \"\"}}'' @ [LF]] False) =
     Block \<lparr>incoming = [], peer_closed = False,
            sent = [''{\"jsonrpc\": \"2.0\", \"id\": 1, \"result\": \"success\"}'', [LF],
                    ''{\"jsonrpc\": \"2.0\", \"method\": \"edit\", \"params\": {\"uri\": \"\", \"revision\": 0, \"delta\": [{\"range\": {\"start\": {\"line\": 0, \"character\": 0}, \"end\": {\"line\": 0, \"character\": 1}}, \"replacement\": \"AaA\"}]}}'', [LF]]\<rparr> \<and>
   session (peer [''{\"jsonrpc\": \"2.0\", \"id\": 1, \"method\": \"open\"}'' @ [LF]] False) =
     Raise KeyError \<lparr>incoming = [], peer_closed = False,
            sent = [''{\"jsonrpc\": \"2.0\", \"id\": 1, \"result\": \"success\"}'', [LF]]\<rparr>"
  by code_simp

text \<open>
  C4, amended. Whenever the first \<open>read_line\<close> of a session returns a message with an
  \<open>id\<close>, the first thing the session sends is the response and a newline, whatever
  \<open>method\<close> and \<open>params\<close> the message has; the response has \<open>jsonrpc\<close> \<open>"2.0"\<close>, the
  \<open>id\<close> of the request and the result \<open>"success"\<close>.
\<close>

theorem open_reply_is_success_with_request_id:
  assumes "read_line c = Return req c1" and "getitem req ''id'' = Inr i"
  shows "(\<exists>ws. sent (final (session c)) = sent c @ dumps (response i) # [LF] # ws) \<and>
         getitem (response i) ''jsonrpc'' = Inr (JStr ''2.0'') \<and>
         getitem (response i) ''id'' = Inr i \<and>
         getitem (response i) ''result'' = Inr (JStr ''success'')"
  using assms by (auto simp: session_sent response_def split: sum.splits)

text \<open>
  The amended C4 at the open message of \<open>dummy-jsonrpc.py\<close> for \<open>/tmp/a.txt\<close>, sent
  as one line: the reply for id 1.
\<close>

theorem open_reply_is_success_with_request_id_witness:
  "read_line (peer [dumps (messages ''file:///tmp/a.txt'' Open) @ [LF]] False) =
     Return (messages ''file:///tmp/a.txt'' Open) (peer [] False) \<and>
   getitem (messages ''file:///tmp/a.txt'' Open) ''id'' = Inr (JInt 1) \<and>
   (\<exists>ws. sent (final (session (peer [dumps (messages ''file:///tmp/a.txt'' Open) @ [LF]] False))) =
      ''{\"jsonrpc\": \"2.0\", \"id\": 1, \"result\": \"success\"}'' # [LF] # ws)"
proof -
  let ?c = "peer [dumps (messages ''file:///tmp/a.txt'' Open) @ [LF]] False"
  have r: "read_line ?c = Return (messages ''file:///tmp/a.txt'' Open) (peer [] False)"
    by code_simp
  have i: "getitem (messages ''file:///tmp/a.txt'' Open) ''id'' = Inr (JInt 1)"
    by (simp add: messages_def)
  have d: "dumps (response (JInt 1)) = ''{\"jsonrpc\": \"2.0\", \"id\": 1, \"result\": \"success\"}''"
    by code_simp
  have s: "sent ?c = []" by (simp add: peer_def)
  from open_reply_is_success_with_request_id [OF r i] r i show ?thesis
    by (simp add: d s)
qed

subsection \<open>The pushed edit\<close>

text \<open>
  C6, as stated, fails: the edit is not the same for every open request. Its uri is
  copied from the request, so two requests with different uris are answered by
  different edits.
\<close>

theorem pushed_edit_not_fixed_counterexample:
  "sent (final (session (peer [''{\"id\": 1, \"params\": {\"uri\": \"file:///tmp/a.txt\"}}'' @ [LF]] False))) ! 2 =
     ''{\"jsonrpc\": \"2.0\", \"method\": \"edit\", \"params\": {\"uri\": \"file:///tmp/a.txt\", \"revision\": 0, \"delta\": [{\"range\": {\"start\": {\"line\": 0, \"character\": 0}, \"end\": {\"line\": 0, \"character\": 1}}, \"replacement\": \"AaA\"}]}}'' \<and>
   sent (final (session (peer [''{\"id\": 1, \"params\": {\"uri\": \"file:///tmp/b.txt\"}}'' @ [LF]] False))) ! 2 =
     ''{\"jsonrpc\": \"2.0\", \"method\": \"edit\", \"params\": {\"uri\": \"file:///tmp/b.txt\", \"revision\": 0, \"delta\": [{\"range\": {\"start\": {\"line\": 0, \"character\": 0}, \"end\": {\"line\": 0, \"character\": 1}}, \"replacement\": \"AaA\"}]}}'' \<and>
   sent (final (session (peer [''{\"id\": 1, \"params\": {\"uri\": \"file:///tmp/a.txt\"}}'' @ [LF]] False))) ! 2 \<noteq>
   sent (final (session (peer [''{\"id\": 1, \"params\": {\"uri\": \"file:///tmp/b.txt\"}}'' @ [LF]] False))) ! 2"
  by code_simp

text \<open>
  C6, amended. Whenever the first \<open>read_line\<close> of a session returns a message with an
  \<open>id\<close> and a \<open>params.uri\<close>, the session sends the response, a newline, the edit and a
  newline. The edit has the method \<open>edit\<close>, the \<open>params.uri\<close> of the request,
  revision 0 and the single delta that replaces the range from (0, 0) to (0, 1) by
  \<open>AaA\<close>: it is fixed but for the uri.
\<close>

theorem pushed_edit_echoes_request_uri:
  assumes "read_line c = Return req c1" and "getitem req ''id'' = Inr i"
    and "param req ''uri'' = Inr u"
  shows "sent (final (session c)) =
           sent c @ [dumps (response i), [LF], dumps (the_beautiful_edit u), [LF]] \<and>
         getitem (the_beautiful_edit u) ''method'' = Inr (JStr ''edit'') \<and>
         param (the_beautiful_edit u) ''uri'' = Inr u \<and>
         param (the_beautiful_edit u) ''revision'' = Inr (JInt 0) \<and>
         param (the_beautiful_edit u) ''delta'' =
           Inr (JList [JDict [(''range'', JDict [(''start'', position 0 0), (''end'', position 0 1)]),
                              (''replacement'', JStr ''AaA'')]])"
  using assms by (simp add: session_sent the_beautiful_edit_def param_def)

text \<open>The amended C6 at the open message of \<open>dummy-jsonrpc.py\<close> for \<open>/tmp/b.txt\<close>.\<close>

theorem pushed_edit_echoes_request_uri_witness:
  "read_line (peer [dumps (messages ''file:///tmp/b.txt'' Open) @ [LF]] False) =
     Return (messages ''file:///tmp/b.txt'' Open) (peer [] False) \<and>
   getitem (messages ''file:///tmp/b.txt'' Open) ''id'' = Inr (JInt 1) \<and>
   param (messages ''file:///tmp/b.txt'' Open) ''uri'' = Inr (JStr ''file:///tmp/b.txt'') \<and>
   sent (final (session (peer [dumps (messages ''file:///tmp/b.txt'' Open) @ [LF]] False))) =
     [''{\"jsonrpc\": \"2.0\", \"id\": 1, \"result\": \"success\"}'', [LF],
      ''{\"jsonrpc\": \"2.0\", \"method\": \"edit\", \"params\": {\"uri\": \"file:///tmp/b.txt\", \"revision\": 0, \"delta\": [{\"range\": {\"start\": {\"line\": 0, \"character\": 0}, \"end\": {\"line\": 0, \"character\": 1}}, \"replacement\": \"AaA\"}]}}'', [LF]]"
proof -
  let ?m = "messages ''file:///tmp/b.txt'' Open"
  let ?c = "peer [dumps ?m @ [LF]] False"
  have r: "read_line ?c = Return ?m (peer [] False)"
    by code_simp
  have i: "getitem ?m ''id'' = Inr (JInt 1)"
    by (simp add: messages_def)
  have u: "param ?m ''uri'' = Inr (JStr ''file:///tmp/b.txt'')"
    by (simp add: messages_def param_def)
  have d: "dumps (response (JInt 1)) = ''{\"jsonrpc\": \"2.0\", \"id\": 1, \"result\": \"success\"}''"
    by code_simp
  have e: "dumps (the_beautiful_edit (JStr ''file:///tmp/b.txt'')) =
      ''{\"jsonrpc\": \"2.0\", \"method\": \"edit\", \"params\": {\"uri\": \"file:///tmp/b.txt\", \"revision\": 0, \"delta\": [{\"range\": {\"start\": {\"line\": 0, \"character\": 0}, \"end\": {\"line\": 0, \"character\": 1}}, \"replacement\": \"AaA\"}]}}''"
    by code_simp
  have s: "sent ?c = []" by (simp add: peer_def)
  from pushed_edit_echoes_request_uri [OF r i u] r i u show ?thesis
    by (simp add: d e s)
qed

subsection \<open>The drain loop\<close>

text \<open>
  C7. The loop behind the edit writes nothing to the connection: whatever the peer sends
  and however the loop ends, \<open>sent\<close> is what it was when the loop started. So
  everything a session ever sends is nothing, or the response, or the response and the
  edit, each with its newline; nothing follows the edit.
\<close>

theorem no_write_after_the_edit:
  "sent (final (drain c)) = sent c \<and>
   (\<exists>ws. sent (final (session c)) = sent c @ ws \<and>
      (ws = [] \<or> (\<exists>i. ws = [dumps (response i), [LF]]) \<or>
       (\<exists>i u. ws = [dumps (response i), [LF], dumps (the_beautiful_edit u), [LF]])))"
  by (auto simp: drain_sent session_sent split: result.splits sum.splits)

subsection \<open>The end of a connection\<close>

text \<open>
  C5. The claim is that the server survives the end of a connection and can accept the
  next one. In the code nothing catches what \<open>read_line\<close> raises. Two peers connect,
  each sends an open request and closes: the first is answered, then \<open>recv\<close> returns
  \<open>b''\<close>, \<open>json.loads\<close> raises and the script ends with that exception; the second
  peer is never accepted. By \<open>serve_first_only\<close> no run ever accepts a second peer.
\<close>

theorem closed_peer_stops_the_server:
  "serve [] [peer [''{\"id\": 1, \"params\": {\"uri\": \"file:///tmp/a.txt\"}}'' @ [LF]] True,
             peer [''{\"id\": 2, \"params\": {\"uri\": \"file:///tmp/b.txt\"}}'' @ [LF]] True] =
     Raise JSONDecodeError
       ([\<lparr>incoming = [], peer_closed = True,
          sent = [''{\"jsonrpc\": \"2.0\", \"id\": 1, \"result\": \"success\"}'', [LF],
                  ''{\"jsonrpc\": \"2.0\", \"method\": \"edit\", \"params\": {\"uri\": \"file:///tmp/a.txt\", \"revision\": 0, \"delta\": [{\"range\": {\"start\": {\"line\": 0, \"character\": 0}, \"end\": {\"line\": 0, \"character\": 1}}, \"replacement\": \"AaA\"}]}}'', [LF]]\<rparr>],
        [peer [''{\"id\": 2, \"params\": {\"uri\": \"file:///tmp/b.txt\"}}'' @ [LF]] True])"
  by code_simp

subsection \<open>The stale socket file\<close>

text \<open>
  C10, as stated, fails: not whatever is at the path is deleted. On a directory
  \<open>os.remove\<close> raises and the script ends; a symbolic link whose target is missing
  stays, because \<open>os.path.exists\<close> is false for it.
\<close>

theorem stale_directory_counterexample:
  "remove_stale_socket [socket_path \<mapsto> Dir] = Inl IsADirectoryError \<and>
   remove_stale_socket [socket_path \<mapsto> Symlink ''/nowhere''] = Inr [socket_path \<mapsto> Symlink ''/nowhere'']"
  by (simp add: remove_stale_socket_def os_remove_def os_path_exists_unfold stat_missing socket_path_def)

text \<open>
  C10, amended. When \<open>os.path.exists\<close> holds for the socket path and the entry there is
  not a directory, the step removes the entry; and when the step returns, every other
  path holds what it held before.
\<close>

theorem stale_socket_removal:
  "(os_path_exists fs socket_path \<and> fs socket_path \<noteq> Some Dir \<longrightarrow>
      (\<exists>fs'. remove_stale_socket fs = Inr fs' \<and> fs' socket_path = None)) \<and>
   (\<forall>fs' p. remove_stale_socket fs = Inr fs' \<and> p \<noteq> socket_path \<longrightarrow> fs' p = fs p)"
  by (auto simp: remove_stale_socket_def os_remove_def os_path_exists_unfold
           split: if_splits option.splits entry.splits)

text \<open>
  The amended C10 at a file system with a stale socket and one other file: the socket is
  removed and the file stays.
\<close>

theorem stale_socket_removal_witness:
  "os_path_exists [socket_path \<mapsto> Socket, ''/tmp/keep'' \<mapsto> File] socket_path \<and>
   [socket_path \<mapsto> Socket, ''/tmp/keep'' \<mapsto> File] socket_path \<noteq> Some Dir \<and>
   (\<exists>fs'. remove_stale_socket [socket_path \<mapsto> Socket, ''/tmp/keep'' \<mapsto> File] = Inr fs' \<and>
      fs' socket_path = None \<and> fs' ''/tmp/keep'' = Some File)"
proof -
  let ?fs = "[socket_path \<mapsto> Socket, ''/tmp/keep'' \<mapsto> File]"
  have neq: "''/tmp/keep'' \<noteq> socket_path" by (simp add: socket_path_def)
  have ex: "os_path_exists ?fs socket_path" using neq by (simp add: os_path_exists_unfold)
  have nd: "?fs socket_path \<noteq> Some Dir" using neq by simp
  from stale_socket_removal [of ?fs] ex nd
  obtain fs' where r: "remove_stale_socket ?fs = Inr fs'" and gone: "fs' socket_path = None"
    by blast
  from stale_socket_removal [of ?fs] r neq have "fs' ''/tmp/keep'' = ?fs ''/tmp/keep''"
    by blast
  with ex nd r gone show ?thesis by simp
qed

section \<open>Properties of the two scripts together\<close>

text \<open>
  C9. The edit message of \<open>dummy-jsonrpc.py\<close> has an \<open>id\<close>, and it is 2; the edit
  message that \<open>fake-daemon.py\<close> pushes has none, whatever uri it carries.
\<close>

theorem edit_id_in_dummy_jsonrpc_only:
  "getitem (messages u Edit) ''id'' = Inr (JInt 2) \<and>
   getitem (the_beautiful_edit v) ''id'' = Inl KeyError"
  by (simp add: messages_def the_beautiful_edit_def)

end
